theory Spec2Isabelle
  imports Main "HOL-Library.Word" "HOL-Library.Signed_Division"
begin

section \<open>C++ integers\<close>

text \<open>
  A C++ \<open>int\<close> is a 32-bit two's-complement word.  Addition, subtraction and
  multiplication are those of the word ring; \<open>sint\<close> reads the signed value.
  Division truncates towards zero (\<open>sdiv\<close> on the signed readings), unlike the
  \<open>div\<close> of HOL, which rounds down: \<open>(0 - 1) / 2\<close> is \<open>0\<close> in C++ and
  \<open>-1\<close> with \<open>div\<close>.
\<close>

type_synonym cint = "32 word"

definition cint_div :: "cint \<Rightarrow> cint \<Rightarrow> cint" where
  "cint_div a b = word_of_int (sint a sdiv sint b)"


section \<open>The tensor view underlying SO3bipartView\<close>

text \<open>
  \<open>SO3bipartView<RTYPE>\<close> derives from \<open>cnine::BatchedTensorView<complex<RTYPE>>\<close>
  and declares no data member of its own (SO3bipartView.hpp, lines 43 to 56): all it
  sees of its base is \<open>arr\<close>, \<open>dims\<close>, \<open>strides\<close> and \<open>device()\<close>.
\<close>

text \<open>
  Modelled from the spec: the class \<open>cnine::BatchedTensorView\<close> is declared outside
  the sources at hand; the record keeps the members the adapter names.  \<open>arr\<close> is the
  address of the first element, \<open>dims\<close> and \<open>strides\<close> are vectors of \<open>int\<close>,
  \<open>device\<close> is what \<open>device()\<close> returns.
\<close>

type_synonym addr = nat

record TensorView =
  arr :: addr
  dims :: "cint list"
  strides :: "cint list"
  device :: cint

type_synonym SO3bipartView = TensorView

text \<open>
  Indexing a vector past its end is undefined in C++; the accessors return \<open>None\<close>
  there instead of the unspecified \<open>xs ! i\<close> of HOL.
\<close>

definition at_index :: "cint list \<Rightarrow> nat \<Rightarrow> cint option" where
  "at_index xs i = (if i < length xs then Some (xs ! i) else None)"

text \<open>\<open>int getl1() const { return (dims[1]-1)/2; }\<close>\<close>

definition getl1 :: "SO3bipartView \<Rightarrow> cint option" where
  "getl1 v = map_option (\<lambda>d. cint_div (d - 1) 2) (at_index (dims v) 1)"

text \<open>\<open>int getl2() const { return (dims[2]-1)/2; }\<close>\<close>

definition getl2 :: "SO3bipartView \<Rightarrow> cint option" where
  "getl2 v = map_option (\<lambda>d. cint_div (d - 1) 2) (at_index (dims v) 2)"

text \<open>\<open>int getn() const { return dims[3]; }\<close>\<close>

definition getn :: "SO3bipartView \<Rightarrow> cint option" where
  "getn v = at_index (dims v) 3"


section \<open>Conversion to a view of reals\<close>

text \<open>
  Modelled from the spec: \<open>cnine::Ctensor4_view\<close> is declared outside the sources at
  hand; the record keeps the five arguments its constructor is given by the conversion
  operator: the array as a pointer to reals, four extents, four strides, the offset of
  the imaginary parts and the device.
\<close>

record Ctensor4_view =
  c4_arr :: addr
  c4_dims :: "cint list"
  c4_strides :: "cint list"
  c4_coffs :: cint
  c4_dev :: cint

text \<open>
  \<^verbatim>\<open>operator cnine::Ctensor4_view() const{
    return cnine::Ctensor4_view(arr.template ptr_as<RTYPE>(),{dims[0],dims[1],dims[2],dims[3]},
      {2*strides[0],2*strides[1],2*strides[2],2*strides[3]},1,device());}\<close>
  The pointer is reinterpreted, not moved.  Reading \<open>dims[3]\<close> or \<open>strides[3]\<close> of a
  shorter vector is undefined: \<open>None\<close>.
\<close>

definition to_Ctensor4_view :: "SO3bipartView \<Rightarrow> Ctensor4_view option" where
  "to_Ctensor4_view v =
     (if 4 \<le> length (dims v) \<and> 4 \<le> length (strides v)
      then Some \<lparr>c4_arr = arr v,
                 c4_dims = [dims v ! 0, dims v ! 1, dims v ! 2, dims v ! 3],
                 c4_strides = [2 * strides v ! 0, 2 * strides v ! 1,
                               2 * strides v ! 2, 2 * strides v ! 3],
                 c4_coffs = 1,
                 c4_dev = device v\<rparr>
      else None)"


section \<open>Construction from a tensor view\<close>

text \<open>
  The memory the views point into: a map from addresses to elements.  A constructor
  takes the memory and returns it, so that a copy of elements would show.
\<close>

type_synonym 'a store = "addr \<Rightarrow> 'a"

text \<open>
  Modelled from the spec: the copy constructor of \<open>cnine::BatchedTensorView\<close> is
  outside the sources at hand.  The spec has views alias their storage without owning
  it: the copy takes over the array pointer, the extents, the strides and the device of
  its source and touches no element.
\<close>

definition TensorView_copy :: "TensorView \<Rightarrow> 'a store \<Rightarrow> TensorView \<times> 'a store" where
  "TensorView_copy x m =
     (\<lparr>arr = arr x, dims = dims x, strides = strides x, device = device x\<rparr>, m)"

text \<open>\<open>SO3bipartView(const TensorView& x): TensorView(x){}\<close>\<close>

definition SO3bipartView_of :: "TensorView \<Rightarrow> 'a store \<Rightarrow> SO3bipartView \<times> 'a store" where
  "SO3bipartView_of x m = TensorView_copy x m"


section \<open>CG-transforms of the bipartite view\<close>

text \<open>
  The two kernels \<open>SO3part_addCGtransformFn\<close> and \<open>SO3part_addCGtransform_backFn\<close>
  and the conversion of an \<open>SO3partView\<close> to a \<open>cnine::Ctensor3_view\<close> are defined
  outside the sources at hand: they are parameters.  A kernel is called with a
  destination view, a source view and an offset, and acts on the memory \<open>'s\<close>.
  \<open>SO3partView\<close> is a view of the same base class as the bipartite one.
\<close>

type_synonym SO3partView = TensorView

record ('c3, 's) CGtransform_kernels =
  Ctensor3_view_of :: "SO3partView \<Rightarrow> 'c3"
  SO3part_addCGtransformFn :: "'c3 \<Rightarrow> Ctensor4_view \<Rightarrow> cint \<Rightarrow> 's \<Rightarrow> 's"
  SO3part_addCGtransform_backFn :: "Ctensor4_view \<Rightarrow> 'c3 \<Rightarrow> cint \<Rightarrow> 's \<Rightarrow> 's"

text \<open>
  \<^verbatim>\<open>void add_CGtransform_to(const SO3partView<RTYPE>& r, const int offs=0) const{
    SO3part_addCGtransformFn()(cnine::Ctensor3_view(r),cnine::Ctensor4_view(*this),offs);}\<close>
  The result is \<open>None\<close> where the conversion of \<open>*this\<close> is undefined.
\<close>

definition add_CGtransform_to ::
  "('c3, 's) CGtransform_kernels \<Rightarrow> SO3bipartView \<Rightarrow> SO3partView \<Rightarrow> cint \<Rightarrow> 's \<Rightarrow> 's option" where
  "add_CGtransform_to K this r offs m =
     (case to_Ctensor4_view this of
        None \<Rightarrow> None
      | Some c4 \<Rightarrow> Some (SO3part_addCGtransformFn K (Ctensor3_view_of K r) c4 offs m))"

text \<open>
  \<^verbatim>\<open>void add_CGtransform_back(const SO3partView<RTYPE>& r, const int offs=0) const{
    SO3part_addCGtransform_backFn()(cnine::Ctensor4_view(*this),cnine::Ctensor3_view(r),offs);}\<close>
\<close>

definition add_CGtransform_back ::
  "('c3, 's) CGtransform_kernels \<Rightarrow> SO3bipartView \<Rightarrow> SO3partView \<Rightarrow> cint \<Rightarrow> 's \<Rightarrow> 's option" where
  "add_CGtransform_back K this r offs m =
     (case to_Ctensor4_view this of
        None \<Rightarrow> None
      | Some c4 \<Rightarrow> Some (SO3part_addCGtransform_backFn K c4 (Ctensor3_view_of K r) offs m))"


text \<open>
  Kernels to run the two operations on: each appends its name and its arguments, as
  destination and source, to a log.
\<close>

definition logging_kernels ::
  "(SO3partView, (string \<times> (SO3partView + Ctensor4_view) \<times> (SO3partView + Ctensor4_view) \<times> cint) list)
     CGtransform_kernels" where
  "logging_kernels =
     \<lparr>Ctensor3_view_of = (\<lambda>r. r),
      SO3part_addCGtransformFn = (\<lambda>c3 c4 offs m. m @ [(''addCGtransform'', Inl c3, Inr c4, offs)]),
      SO3part_addCGtransform_backFn =
        (\<lambda>c4 c3 offs m. m @ [(''addCGtransform_back'', Inr c4, Inl c3, offs)])\<rparr>"


section \<open>The Python bindings of SO3part\<close>

text \<open>
  The native class \<open>SO3part<float>\<close> and the free function \<open>CGproduct\<close> are defined
  outside the sources at hand: they are parameters.  A native function takes its
  arguments and the state of the process \<open>'w\<close> and returns a result \<open>'res\<close> with the
  new state; \<open>'res\<close> is any type, so it holds whatever the library raises as well.
\<close>

record ('tensor, 'part, 'w, 'res) SO3part_native =
  SO3part_from_tensor :: "'tensor \<Rightarrow> 'w \<Rightarrow> 'res \<times> 'w"
  SO3part_raw :: "cint \<Rightarrow> cint \<Rightarrow> cint \<Rightarrow> cint \<Rightarrow> 'w \<Rightarrow> 'res \<times> 'w"
  SO3part_zero :: "cint \<Rightarrow> cint \<Rightarrow> cint \<Rightarrow> cint \<Rightarrow> 'w \<Rightarrow> 'res \<times> 'w"
  SO3part_gaussian :: "cint \<Rightarrow> cint \<Rightarrow> cint \<Rightarrow> cint \<Rightarrow> 'w \<Rightarrow> 'res \<times> 'w"
  SO3part_CGproduct :: "'part \<Rightarrow> 'part \<Rightarrow> cint \<Rightarrow> 'w \<Rightarrow> 'res \<times> 'w"

text \<open>
  \<open>py::arg("n")=1\<close>: an argument the Python caller leaves out (\<open>None\<close>) takes its
  declared default.
\<close>

definition py_arg :: "'a \<Rightarrow> 'a option \<Rightarrow> 'a" where
  "py_arg dflt a = (case a of None \<Rightarrow> dflt | Some x \<Rightarrow> x)"

text \<open>\<open>.def(pybind11::init<const at::Tensor&>())\<close>\<close>

definition SO3part_init_py ::
  "('tensor, 'part, 'w, 'res) SO3part_native \<Rightarrow> 'tensor \<Rightarrow> 'w \<Rightarrow> 'res \<times> 'w" where
  "SO3part_init_py N x = SO3part_from_tensor N x"

text \<open>
  \<^verbatim>\<open>.def_static("raw",[](const int b, const int l, const int n, const int dev){
      return SO3part<float>::raw(b,l,n,dev);},
      py::arg("b"), py::arg("l"), py::arg("n")=1, py::arg("device")=0)\<close>
\<close>

definition SO3part_raw_py ::
  "('tensor, 'part, 'w, 'res) SO3part_native \<Rightarrow> cint \<Rightarrow> cint \<Rightarrow> cint option \<Rightarrow> cint option
     \<Rightarrow> 'w \<Rightarrow> 'res \<times> 'w" where
  "SO3part_raw_py N b l n dev = SO3part_raw N b l (py_arg 1 n) (py_arg 0 dev)"

text \<open>
  \<^verbatim>\<open>.def_static("zero",[](const int b, const int l, const int n, const int dev){
      return SO3part<float>::zero(b,l,n,dev);},
      py::arg("b"), py::arg("l"), py::arg("n")=1, py::arg("device")=0)\<close>
\<close>

definition SO3part_zero_py ::
  "('tensor, 'part, 'w, 'res) SO3part_native \<Rightarrow> cint \<Rightarrow> cint \<Rightarrow> cint option \<Rightarrow> cint option
     \<Rightarrow> 'w \<Rightarrow> 'res \<times> 'w" where
  "SO3part_zero_py N b l n dev = SO3part_zero N b l (py_arg 1 n) (py_arg 0 dev)"

text \<open>
  \<^verbatim>\<open>.def_static("gaussian",[](const int b, const int l, const int n, const int dev){
      return SO3part<float>::gaussian(b,l,n,dev);},
      py::arg("b"), py::arg("l"), py::arg("n")=1, py::arg("device")=0)\<close>
\<close>

definition SO3part_gaussian_py ::
  "('tensor, 'part, 'w, 'res) SO3part_native \<Rightarrow> cint \<Rightarrow> cint \<Rightarrow> cint option \<Rightarrow> cint option
     \<Rightarrow> 'w \<Rightarrow> 'res \<times> 'w" where
  "SO3part_gaussian_py N b l n dev = SO3part_gaussian N b l (py_arg 1 n) (py_arg 0 dev)"

text \<open>
  \<^verbatim>\<open>m.def("CGproduct",[](const SO3part<float>& x, const SO3part<float>& y, const int l){
      return CGproduct(x,y,l);});\<close>
\<close>

definition CGproduct_py ::
  "('tensor, 'part, 'w, 'res) SO3part_native \<Rightarrow> 'part \<Rightarrow> 'part \<Rightarrow> cint \<Rightarrow> 'w \<Rightarrow> 'res \<times> 'w" where
  "CGproduct_py N x y l = SO3part_CGproduct N x y l"

text \<open>\<open>.def("__len__",[](const SO3part<float>& obj){return 1;})\<close>\<close>

definition SO3part_len_py :: "'part \<Rightarrow> cint" where
  "SO3part_len_py obj = 1"


section \<open>The test driver\<close>

text \<open>
  \<open>testSO3vecB.cpp\<close> calls the library and prints; the model records what it does, in
  order, as a list of events.  The values of type \<open>'vec\<close> are the \<open>SO3vecB\<close> objects the
  library hands back; an \<open>SO3type\<close> is the list of its entries.
\<close>

datatype 'vec event =
    Session_ctor
  | Session_dtor
  | Cout_endl
  | Printl string 'vec
  | Cout_vec 'vec
  | Call_gaussian cint "cint list"
  | Call_CGproduct 'vec 'vec cint
  | Call_to_device 'vec cint

text \<open>
  \<open>SO3vecB::gaussian\<close>, \<open>SO3vecB::CGproduct\<close> and \<open>SO3vecB::to_device\<close> are defined
  outside the sources at hand: they are parameters.  Each may throw (\<open>Inl\<close>).  The
  first argument of \<open>SO3vecB_gaussian\<close> counts the draws made before, the state of the
  random generator.
\<close>

record ('e, 'vec) SO3vecB_api =
  SO3vecB_gaussian :: "nat \<Rightarrow> cint \<Rightarrow> cint list \<Rightarrow> 'e + 'vec"
  SO3vecB_CGproduct :: "'vec \<Rightarrow> 'vec \<Rightarrow> cint \<Rightarrow> 'e + 'vec"
  SO3vecB_to_device :: "'vec \<Rightarrow> cint \<Rightarrow> 'e + 'vec"

text \<open>
  \<open>main\<close> has no \<open>try\<close>: an exception of the library leaves it uncaught and the
  process stops there, no destructor of \<open>main\<close> being run.  Falling off the end of
  \<open>main\<close> returns 0.
\<close>

datatype 'e outcome = Returned cint | Uncaught 'e

text \<open>
  \<^verbatim>\<open>int main(int argc, char** argv){
    GElibSession session;
    cout<<endl;
    int b=1;
    SO3type tau({2,2,2});
    SO3vecB u=SO3vecB::gaussian(1,tau);
    SO3vecB v=SO3vecB::gaussian(1,tau);
    printl("u",u)<<endl;
    printl("v",v)<<endl;
    SO3vecB w=u.CGproduct(v,2);
    cout<<w<<endl;
    cout<<endl;
    SO3vecB ug=u.to_device(1);
    SO3vecB vg=v.to_device(1);
    printl("ug",ug)<<endl;
    printl("vg",vg)<<endl;
    SO3vecB wg=ug.CGproduct(vg,2);
    cout<<wg<<endl;
  }\<close>
  The session, declared first, is destroyed last, when \<open>main\<close> returns.
\<close>

definition main :: "('e, 'vec) SO3vecB_api \<Rightarrow> 'e outcome \<times> 'vec event list" where
  "main A =
    (let t0 = [Session_ctor, Cout_endl];
         b = (1 :: cint);
         tau = [2, 2, 2];
         t1 = t0 @ [Call_gaussian 1 tau]
     in case SO3vecB_gaussian A 0 1 tau of
          Inl e \<Rightarrow> (Uncaught e, t1)
        | Inr u \<Rightarrow>
     let t2 = t1 @ [Call_gaussian 1 tau]
     in case SO3vecB_gaussian A 1 1 tau of
          Inl e \<Rightarrow> (Uncaught e, t2)
        | Inr v \<Rightarrow>
     let t3 = t2 @ [Printl ''u'' u, Printl ''v'' v, Call_CGproduct u v 2]
     in case SO3vecB_CGproduct A u v 2 of
          Inl e \<Rightarrow> (Uncaught e, t3)
        | Inr w \<Rightarrow>
     let t4 = t3 @ [Cout_vec w, Cout_endl, Call_to_device u 1]
     in case SO3vecB_to_device A u 1 of
          Inl e \<Rightarrow> (Uncaught e, t4)
        | Inr ug \<Rightarrow>
     let t5 = t4 @ [Call_to_device v 1]
     in case SO3vecB_to_device A v 1 of
          Inl e \<Rightarrow> (Uncaught e, t5)
        | Inr vg \<Rightarrow>
     let t6 = t5 @ [Printl ''ug'' ug, Printl ''vg'' vg, Call_CGproduct ug vg 2]
     in case SO3vecB_CGproduct A ug vg 2 of
          Inl e \<Rightarrow> (Uncaught e, t6)
        | Inr wg \<Rightarrow> (Returned 0, t6 @ [Cout_vec wg, Session_dtor]))"

text \<open>The events that are calls of the library, as opposed to output and the session.\<close>

fun library_call :: "'vec event \<Rightarrow> bool" where
  "library_call (Call_gaussian b tau) = True"
| "library_call (Call_CGproduct x y maxl) = True"
| "library_call (Call_to_device x dev) = True"
| "library_call e = False"

text \<open>
  A library to run the driver on: every call succeeds and returns the term that
  describes how its value was made.
\<close>

datatype vec_term =
    Gaussian nat cint "cint list"
  | CGproduct vec_term vec_term cint
  | On_device vec_term cint

definition term_api :: "(unit, vec_term) SO3vecB_api" where
  "term_api = \<lparr>SO3vecB_gaussian = (\<lambda>k b tau. Inr (Gaussian k b tau)),
               SO3vecB_CGproduct = (\<lambda>x y l. Inr (CGproduct x y l)),
               SO3vecB_to_device = (\<lambda>x d. Inr (On_device x d))\<rparr>"


section \<open>Integer reading of the degree accessors\<close>

lemma sint_pred:
  fixes d :: cint
  assumes "- (2 ^ 31) < sint d"
  shows "sint (d - 1) = sint d - 1"
proof -
  have up: "sint d < 2 ^ 31"
    using sint_less [of d] by simp
  have "sint (d - 1) = signed_take_bit 31 (sint d - 1)"
    by (simp add: sint_word_ariths)
  also have "\<dots> = sint d - 1"
    using assms up by (intro signed_take_bit_int_eq_self) simp_all
  finally show ?thesis .
qed

lemma sdiv_two_eq:
  fixes k :: int
  shows "k sdiv 2 = (if 0 \<le> k then k div 2 else - ((- k) div 2))"
  by (simp add: signed_divide_int_def sgn_if)

lemma sdiv_two_lower:
  fixes k :: int
  assumes "- (2 ^ 31) \<le> k"
  shows "- (2 ^ 31) \<le> k sdiv 2"
  using assms unfolding sdiv_two_eq by (cases "0 \<le> k") simp_all

lemma sdiv_two_upper:
  fixes k :: int
  assumes "k < 2 ^ 31"
  shows "k sdiv 2 < 2 ^ 31"
  using assms unfolding sdiv_two_eq by (cases "0 \<le> k") simp_all

lemma sint_cint_div_two:
  fixes a :: cint
  shows "sint (cint_div a 2) = sint a sdiv 2"
proof -
  have lo: "- (2 ^ 31) \<le> sint a" and up: "sint a < 2 ^ 31"
    using sint_greater_eq [of a] sint_less [of a] by simp_all
  have "signed_take_bit 31 (sint a sdiv 2) = sint a sdiv 2"
    using sdiv_two_lower [OF lo] sdiv_two_upper [OF up]
    by (rule signed_take_bit_int_eq_self)
  then show ?thesis
    by (simp add: cint_div_def signed_of_int)
qed

lemma degree_reading:
  fixes d :: cint
  assumes "- (2 ^ 31) < sint d"
  shows "sint (cint_div (d - 1) 2) = (sint d - 1) sdiv 2"
  by (simp add: sint_cint_div_two sint_pred [OF assms])


lemma sint_of_nat_small:
  fixes n :: nat
  assumes "n < 2 ^ 31"
  shows "sint (of_nat n :: cint) = int n"
proof -
  have "signed_take_bit 31 (int n) = int n"
    using assms by (intro signed_take_bit_int_eq_self) simp_all
  then show ?thesis
    by (simp add: signed_of_nat)
qed

lemma cint_div_even:
  fixes l :: nat
  assumes "l < 2 ^ 30"
  shows "cint_div (of_nat (2 * l)) 2 = of_nat l"
proof -
  have "2 * l < 2 ^ 31" using assms by simp
  then have "sint (of_nat (2 * l) :: cint) = int (2 * l)"
    by (rule sint_of_nat_small)
  then show ?thesis
    by (simp add: cint_div_def sdiv_two_eq)
qed

lemma cint_div_odd:
  fixes l :: nat
  assumes "l < 2 ^ 30"
  shows "cint_div (of_nat (2 * l + 1)) 2 = of_nat l"
proof -
  have "2 * l + 1 < 2 ^ 31" using assms by simp
  then have "sint (of_nat (2 * l + 1) :: cint) = int (2 * l + 1)"
    by (rule sint_of_nat_small)
  then show ?thesis
    by (simp add: cint_div_def sdiv_two_eq)
qed

lemma of_nat_cint_inj:
  fixes m n :: nat
  assumes "m < 2 ^ 32" "n < 2 ^ 32" "(of_nat m :: cint) = of_nat n"
  shows "m = n"
  using assms by (simp add: word_of_nat_eq_iff take_bit_nat_eq_self)

lemma sint_double:
  fixes s :: cint
  assumes "- (2 ^ 30) \<le> sint s" and "sint s < 2 ^ 30"
  shows "sint (2 * s) = 2 * sint s"
proof -
  have "sint (2 * s) = signed_take_bit 31 (2 * sint s)"
    by (simp add: sint_word_ariths)
  also have "\<dots> = 2 * sint s"
    using assms by (intro signed_take_bit_int_eq_self) simp_all
  finally show ?thesis .
qed


section \<open>The conversion on four dimensions\<close>

lemma four_elems:
  assumes "length xs = 4"
  shows "[xs ! 0, xs ! 1, xs ! 2, xs ! 3] = xs"
  using assms by (intro nth_equalityI) (auto simp: less_Suc_eq numeral_eq_Suc)

lemma to_Ctensor4_view_four:
  assumes "length (dims v) = 4" and "length (strides v) = 4"
  shows "to_Ctensor4_view v =
           Some \<lparr>c4_arr = arr v, c4_dims = dims v,
                 c4_strides = map (\<lambda>s. 2 * s) (strides v),
                 c4_coffs = 1, c4_dev = device v\<rparr>"
proof -
  have "map (\<lambda>s. 2 * s) (strides v)
      = map (\<lambda>s. 2 * s) [strides v ! 0, strides v ! 1, strides v ! 2, strides v ! 3]"
    using four_elems [OF assms(2)] by simp
  then show ?thesis
    using assms four_elems [OF assms(1)] by (simp add: to_Ctensor4_view_def)
qed


section \<open>Degrees come from the shape\<close>

text \<open>
  C1.  For a view over a 4-dimensional tensor, \<open>getl1()\<close> returns \<open>(dims[1]-1)/2\<close>
  and \<open>getl2()\<close> returns \<open>(dims[2]-1)/2\<close>, the division being the truncating one of
  C++ on the signed values.  The view stores no degree: two views of the same shape
  report the same degrees, whatever their storage, strides and device.
\<close>

theorem getl_from_shape:
  assumes "length (dims v) = 4"
  shows "getl1 v = Some (cint_div (dims v ! 1 - 1) 2)
       \<and> getl2 v = Some (cint_div (dims v ! 2 - 1) 2)
       \<and> (- (2 ^ 31) < sint (dims v ! 1) \<longrightarrow>
            map_option sint (getl1 v) = Some ((sint (dims v ! 1) - 1) sdiv 2))
       \<and> (- (2 ^ 31) < sint (dims v ! 2) \<longrightarrow>
            map_option sint (getl2 v) = Some ((sint (dims v ! 2) - 1) sdiv 2))
       \<and> (dims w = dims v \<longrightarrow> getl1 w = getl1 v \<and> getl2 w = getl2 v)"
  using assms by (simp add: getl1_def getl2_def at_index_def degree_reading)

theorem getl_from_shape_witness:
  "length (dims \<lparr>arr = 0, dims = [3, 5, 7, 2], strides = [70, 14, 2, 1], device = 0\<rparr>) = 4
   \<and> getl1 \<lparr>arr = 0, dims = [3, 5, 7, 2], strides = [70, 14, 2, 1], device = 0\<rparr> = Some 2
   \<and> getl2 \<lparr>arr = 0, dims = [3, 5, 7, 2], strides = [70, 14, 2, 1], device = 0\<rparr> = Some 3
   \<and> - (2 ^ 31) < sint (dims \<lparr>arr = 0, dims = [3, 5, 7, 2], strides = [70, 14, 2, 1], device = 0\<rparr> ! 1)
   \<and> map_option sint (getl1 \<lparr>arr = 0, dims = [3, 5, 7, 2], strides = [70, 14, 2, 1], device = 0\<rparr>)
       = Some 2
   \<and> getl1 \<lparr>arr = 64, dims = [3, 5, 7, 2], strides = [1, 3, 15, 105], device = 1\<rparr> = Some 2"
  using getl_from_shape [of "\<lparr>arr = 0, dims = [3, 5, 7, 2], strides = [70, 14, 2, 1], device = 0\<rparr>"
      "\<lparr>arr = 64, dims = [3, 5, 7, 2], strides = [1, 3, 15, 105], device = 1\<rparr>"]
  by (simp add: cint_div_def signed_divide_int_def)


section \<open>The CG-transforms delegate\<close>

text \<open>
  C2.  The section of CG-transforms of the adapter holds two operations,
  \<open>add_CGtransform_to\<close> and \<open>add_CGtransform_back\<close>.  On a 4-dimensional view each
  is one call of its kernel: \<open>add_CGtransform_to(r, offs)\<close> calls
  \<open>SO3part_addCGtransformFn\<close> with \<open>r\<close> as a 3-dimensional view for destination and
  \<open>*this\<close> as a 4-dimensional view for source; \<open>add_CGtransform_back(r, offs)\<close> calls
  \<open>SO3part_addCGtransform_backFn\<close> with the two the other way round.  The memory
  after the operation is the memory the kernel returns, nothing else being computed.
\<close>

theorem CGtransform_delegates:
  assumes "length (dims this) = 4" and "length (strides this) = 4"
  shows "add_CGtransform_to K this r offs m =
           Some (SO3part_addCGtransformFn K (Ctensor3_view_of K r)
                   \<lparr>c4_arr = arr this, c4_dims = dims this,
                    c4_strides = map (\<lambda>s. 2 * s) (strides this),
                    c4_coffs = 1, c4_dev = device this\<rparr> offs m)
       \<and> add_CGtransform_back K this r offs m =
           Some (SO3part_addCGtransform_backFn K
                   \<lparr>c4_arr = arr this, c4_dims = dims this,
                    c4_strides = map (\<lambda>s. 2 * s) (strides this),
                    c4_coffs = 1, c4_dev = device this\<rparr>
                   (Ctensor3_view_of K r) offs m)"
  by (simp add: add_CGtransform_to_def add_CGtransform_back_def
      to_Ctensor4_view_four [OF assms])

theorem CGtransform_delegates_witness:
  "length (dims \<lparr>arr = 0, dims = [1, 3, 3, 2], strides = [18, 6, 2, 1], device = 0\<rparr>) = 4
   \<and> length (strides \<lparr>arr = 0, dims = [1, 3, 3, 2], strides = [18, 6, 2, 1], device = 0\<rparr>) = 4
   \<and> add_CGtransform_to logging_kernels
        \<lparr>arr = 0, dims = [1, 3, 3, 2], strides = [18, 6, 2, 1], device = 0\<rparr>
        \<lparr>arr = 64, dims = [1, 5, 2], strides = [10, 2, 1], device = 0\<rparr> 0 []
      = Some [(''addCGtransform'',
               Inl \<lparr>arr = 64, dims = [1, 5, 2], strides = [10, 2, 1], device = 0\<rparr>,
               Inr \<lparr>c4_arr = 0, c4_dims = [1, 3, 3, 2], c4_strides = [36, 12, 4, 2],
                    c4_coffs = 1, c4_dev = 0\<rparr>, 0)]
   \<and> add_CGtransform_back logging_kernels
        \<lparr>arr = 0, dims = [1, 3, 3, 2], strides = [18, 6, 2, 1], device = 0\<rparr>
        \<lparr>arr = 64, dims = [1, 5, 2], strides = [10, 2, 1], device = 0\<rparr> 0 []
      = Some [(''addCGtransform_back'',
               Inr \<lparr>c4_arr = 0, c4_dims = [1, 3, 3, 2], c4_strides = [36, 12, 4, 2],
                    c4_coffs = 1, c4_dev = 0\<rparr>,
               Inl \<lparr>arr = 64, dims = [1, 5, 2], strides = [10, 2, 1], device = 0\<rparr>, 0)]"
  using CGtransform_delegates [of
      "\<lparr>arr = 0, dims = [1, 3, 3, 2], strides = [18, 6, 2, 1], device = 0\<rparr>"
      logging_kernels
      "\<lparr>arr = 64, dims = [1, 5, 2], strides = [10, 2, 1], device = 0\<rparr>" 0 "[]"]
  by (simp add: logging_kernels_def)


section \<open>The bindings pass through\<close>

text \<open>
  C3.  Each of the five bindings (the constructor from a tensor, \<open>raw\<close>, \<open>zero\<close>,
  \<open>gaussian\<close> and the function \<open>CGproduct\<close>) is the native function on the arguments
  it was given: for every input and every state of the process it returns what the
  native function returns, errors included, and leaves the state the native function
  leaves.  Arguments the caller omits take the declared defaults \<open>n = 1\<close> and
  \<open>device = 0\<close>.  No binding checks or rejects anything.
\<close>

theorem bindings_pass_through:
  "SO3part_init_py N x w = SO3part_from_tensor N x w
   \<and> SO3part_raw_py N b l (Some n) (Some dev) w = SO3part_raw N b l n dev w
   \<and> SO3part_zero_py N b l (Some n) (Some dev) w = SO3part_zero N b l n dev w
   \<and> SO3part_gaussian_py N b l (Some n) (Some dev) w = SO3part_gaussian N b l n dev w
   \<and> SO3part_raw_py N b l None None w = SO3part_raw N b l 1 0 w
   \<and> SO3part_zero_py N b l None None w = SO3part_zero N b l 1 0 w
   \<and> SO3part_gaussian_py N b l None None w = SO3part_gaussian N b l 1 0 w
   \<and> CGproduct_py N p q l w = SO3part_CGproduct N p q l w"
  by (simp add: SO3part_init_py_def SO3part_raw_py_def SO3part_zero_py_def
      SO3part_gaussian_py_def CGproduct_py_def py_arg_def)


section \<open>Construction aliases\<close>

text \<open>
  C5.  The view constructed from a tensor view has the array pointer, the extents, the
  strides and the device of its source; the memory after the construction is the
  memory before it, so no element was copied; the source, passed by constant
  reference, is the value it was.
\<close>

theorem SO3bipartView_of_aliases:
  "arr (fst (SO3bipartView_of x m)) = arr x
   \<and> dims (fst (SO3bipartView_of x m)) = dims x
   \<and> strides (fst (SO3bipartView_of x m)) = strides x
   \<and> device (fst (SO3bipartView_of x m)) = device x
   \<and> snd (SO3bipartView_of x m) = m"
  by (simp add: SO3bipartView_of_def TensorView_copy_def)


section \<open>The steps of the test driver\<close>

text \<open>
  C6.  When no call of the library throws, the driver makes these calls of the library,
  no other, in this order, and returns 0 whatever the values are: it draws two gaussian vectors of batch 1 and type
  \<open>{2,2,2}\<close> with no device given, prints them, takes their CG-product with
  \<open>maxl = 2\<close> and prints it, moves the first and then the second vector to device 1,
  prints them, takes the CG-product of the moved vectors with \<open>maxl = 2\<close> and prints
  it.  No value is compared or tested.
\<close>

theorem main_steps:
  assumes "SO3vecB_gaussian A 0 1 [2, 2, 2] = Inr u"
    and "SO3vecB_gaussian A 1 1 [2, 2, 2] = Inr v"
    and "SO3vecB_CGproduct A u v 2 = Inr w"
    and "SO3vecB_to_device A u 1 = Inr ug"
    and "SO3vecB_to_device A v 1 = Inr vg"
    and "SO3vecB_CGproduct A ug vg 2 = Inr wg"
  shows "main A =
    (Returned 0,
     [Session_ctor, Cout_endl,
      Call_gaussian 1 [2, 2, 2], Call_gaussian 1 [2, 2, 2],
      Printl ''u'' u, Printl ''v'' v,
      Call_CGproduct u v 2, Cout_vec w, Cout_endl,
      Call_to_device u 1, Call_to_device v 1,
      Printl ''ug'' ug, Printl ''vg'' vg,
      Call_CGproduct ug vg 2, Cout_vec wg,
      Session_dtor])
   \<and> filter library_call (snd (main A)) =
     [Call_gaussian 1 [2, 2, 2], Call_gaussian 1 [2, 2, 2],
      Call_CGproduct u v 2,
      Call_to_device u 1, Call_to_device v 1,
      Call_CGproduct ug vg 2]"
  using assms by (simp add: main_def Let_def)

theorem main_steps_witness:
  "main term_api =
    (Returned 0,
     [Session_ctor, Cout_endl,
      Call_gaussian 1 [2, 2, 2], Call_gaussian 1 [2, 2, 2],
      Printl ''u'' (Gaussian 0 1 [2, 2, 2]), Printl ''v'' (Gaussian 1 1 [2, 2, 2]),
      Call_CGproduct (Gaussian 0 1 [2, 2, 2]) (Gaussian 1 1 [2, 2, 2]) 2,
      Cout_vec (CGproduct (Gaussian 0 1 [2, 2, 2]) (Gaussian 1 1 [2, 2, 2]) 2), Cout_endl,
      Call_to_device (Gaussian 0 1 [2, 2, 2]) 1, Call_to_device (Gaussian 1 1 [2, 2, 2]) 1,
      Printl ''ug'' (On_device (Gaussian 0 1 [2, 2, 2]) 1),
      Printl ''vg'' (On_device (Gaussian 1 1 [2, 2, 2]) 1),
      Call_CGproduct (On_device (Gaussian 0 1 [2, 2, 2]) 1)
        (On_device (Gaussian 1 1 [2, 2, 2]) 1) 2,
      Cout_vec (CGproduct (On_device (Gaussian 0 1 [2, 2, 2]) 1)
        (On_device (Gaussian 1 1 [2, 2, 2]) 1) 2),
      Session_dtor])
   \<and> filter library_call (snd (main term_api)) =
     [Call_gaussian 1 [2, 2, 2], Call_gaussian 1 [2, 2, 2],
      Call_CGproduct (Gaussian 0 1 [2, 2, 2]) (Gaussian 1 1 [2, 2, 2]) 2,
      Call_to_device (Gaussian 0 1 [2, 2, 2]) 1, Call_to_device (Gaussian 1 1 [2, 2, 2]) 1,
      Call_CGproduct (On_device (Gaussian 0 1 [2, 2, 2]) 1)
        (On_device (Gaussian 1 1 [2, 2, 2]) 1) 2]"
  using main_steps [of term_api "Gaussian 0 1 [2, 2, 2]" "Gaussian 1 1 [2, 2, 2]"
      "CGproduct (Gaussian 0 1 [2, 2, 2]) (Gaussian 1 1 [2, 2, 2]) 2"
      "On_device (Gaussian 0 1 [2, 2, 2]) 1" "On_device (Gaussian 1 1 [2, 2, 2]) 1"
      "CGproduct (On_device (Gaussian 0 1 [2, 2, 2]) 1) (On_device (Gaussian 1 1 [2, 2, 2]) 1) 2"]
  by (simp add: term_api_def)


section \<open>Even extents\<close>

text \<open>
  C8.  The map from shape to degree is not injective.  For every degree \<open>l\<close> whose
  extents fit an \<open>int\<close>, a view with \<open>dims[1] = 2*l+1\<close> reports \<open>getl1() = l\<close>, and a
  view with the even extent \<open>dims[1] = 2*l+2\<close>, a different shape, reports the same
  \<open>l\<close> and does not fail; \<open>getl2()\<close> does the same on \<open>dims[2]\<close>.
\<close>

theorem getl_truncates:
  fixes l :: nat
  assumes "l < 2 ^ 30 - 1" and "length (dims v) = 4"
  shows "(dims v ! 1 = of_nat (2 * l + 1) \<longrightarrow> getl1 v = Some (of_nat l))
       \<and> (dims v ! 1 = of_nat (2 * l + 2) \<longrightarrow> getl1 v = Some (of_nat l))
       \<and> (dims v ! 2 = of_nat (2 * l + 1) \<longrightarrow> getl2 v = Some (of_nat l))
       \<and> (dims v ! 2 = of_nat (2 * l + 2) \<longrightarrow> getl2 v = Some (of_nat l))
       \<and> (of_nat (2 * l + 1) :: cint) \<noteq> of_nat (2 * l + 2)"
proof -
  have l: "l < 2 ^ 30" using assms(1) by simp
  have odd: "cint_div (of_nat (2 * l + 1) - 1) 2 = of_nat l"
    using cint_div_even [OF l] by simp
  have even: "cint_div (of_nat (2 * l + 2) - 1) 2 = of_nat l"
    using cint_div_odd [OF l] by simp
  have ne: "(of_nat (2 * l + 1) :: cint) \<noteq> of_nat (2 * l + 2)"
  proof
    assume "(of_nat (2 * l + 1) :: cint) = of_nat (2 * l + 2)"
    moreover have "2 * l + 1 < 2 ^ 32" "2 * l + 2 < 2 ^ 32" using l by simp_all
    ultimately have "2 * l + 1 = 2 * l + 2" by (intro of_nat_cint_inj)
    then show False by simp
  qed
  show ?thesis
    using assms(2) odd even ne by (simp add: getl1_def getl2_def at_index_def)
qed

theorem getl_truncates_witness:
  "(2 :: nat) < 2 ^ 30 - 1
   \<and> length (dims \<lparr>arr = 0, dims = [1, 5, 6, 2], strides = [60, 12, 2, 1], device = 0\<rparr>) = 4
   \<and> dims \<lparr>arr = 0, dims = [1, 5, 6, 2], strides = [60, 12, 2, 1], device = 0\<rparr> ! 1 = 5
   \<and> dims \<lparr>arr = 0, dims = [1, 5, 6, 2], strides = [60, 12, 2, 1], device = 0\<rparr> ! 2 = 6
   \<and> getl1 \<lparr>arr = 0, dims = [1, 5, 6, 2], strides = [60, 12, 2, 1], device = 0\<rparr> = Some 2
   \<and> getl2 \<lparr>arr = 0, dims = [1, 5, 6, 2], strides = [60, 12, 2, 1], device = 0\<rparr> = Some 2"
  using getl_truncates [of 2
      "\<lparr>arr = 0, dims = [1, 5, 6, 2], strides = [60, 12, 2, 1], device = 0\<rparr>"]
  by simp


section \<open>The view of reals\<close>

text \<open>
  C9.  The conversion of a 4-dimensional view to a \<open>Ctensor4_view\<close> keeps the four
  extents and the device, keeps the address of the array, and gives every stride
  multiplied by 2; where the doubled stride fits an \<open>int\<close>, its signed value is
  exactly twice the signed value of the stride.
\<close>

theorem to_Ctensor4_view_doubles_strides:
  assumes "length (dims v) = 4" and "length (strides v) = 4"
  shows "\<exists>c. to_Ctensor4_view v = Some c
       \<and> c4_dims c = dims v
       \<and> c4_strides c = map (\<lambda>s. 2 * s) (strides v)
       \<and> c4_dev c = device v
       \<and> c4_arr c = arr v
       \<and> (\<forall>i < 4. - (2 ^ 30) \<le> sint (strides v ! i) \<and> sint (strides v ! i) < 2 ^ 30
            \<longrightarrow> sint (c4_strides c ! i) = 2 * sint (strides v ! i))"
  using assms by (simp add: to_Ctensor4_view_four sint_double)

theorem to_Ctensor4_view_doubles_strides_witness:
  "length (dims \<lparr>arr = 8, dims = [2, 3, 5, 4], strides = [60, 20, 4, 1], device = 1\<rparr>) = 4
   \<and> length (strides \<lparr>arr = 8, dims = [2, 3, 5, 4], strides = [60, 20, 4, 1], device = 1\<rparr>) = 4
   \<and> (\<exists>c. to_Ctensor4_view \<lparr>arr = 8, dims = [2, 3, 5, 4], strides = [60, 20, 4, 1], device = 1\<rparr>
            = Some c
          \<and> c4_dims c = [2, 3, 5, 4]
          \<and> c4_strides c = [120, 40, 8, 2]
          \<and> sint (c4_strides c ! 0) = 120
          \<and> c4_dev c = 1)"
proof -
  obtain c where c: "to_Ctensor4_view
        \<lparr>arr = 8, dims = [2, 3, 5, 4], strides = [60, 20, 4, 1], device = 1\<rparr> = Some c"
      "c4_dims c = [2, 3, 5, 4]" "c4_strides c = [120, 40, 8, 2]" "c4_dev c = 1"
    and rd: "\<forall>i < 4. - (2 ^ 30) \<le> sint ([60, 20, 4, 1 :: cint] ! i)
                 \<and> sint ([60, 20, 4, 1 :: cint] ! i) < 2 ^ 30
               \<longrightarrow> sint (c4_strides c ! i) = 2 * sint ([60, 20, 4, 1 :: cint] ! i)"
    using to_Ctensor4_view_doubles_strides
      [of "\<lparr>arr = 8, dims = [2, 3, 5, 4], strides = [60, 20, 4, 1], device = 1\<rparr>"]
    by auto
  from rd have "sint (c4_strides c ! 0) = 120"
    by simp
  with c show ?thesis
    by simp
qed


section \<open>The length of a part\<close>

text \<open>
  C10.  \<open>__len__\<close> of an \<open>SO3part\<close> is 1 for every object, whatever its batch size,
  degree and number of channels.
\<close>

theorem SO3part_len_is_one:
  "SO3part_len_py obj = 1 \<and> SO3part_len_py obj = SO3part_len_py obj'"
  by (simp add: SO3part_len_py_def)

end
